theory Spec2Isabelle
  imports Complex_Main "HOL-Library.Log_Nat"
begin

section \<open>Python values read by the bot\<close>

text \<open>
  The module \<^verbatim>\<open>sunflower_bot.py\<close> reads a decoded JSON document (the farm data) and a
  caller-supplied inventory mapping. Both are dynamically typed, so the model carries the
  run-time tag of every value and every operation of the source that can raise on a value
  of the wrong tag returns the exception as a value.
\<close>

datatype error =
    TypeError
  | AttributeError
  | KeyError
  | ValueError
  | OverflowError
  | HTTPError
  | PlaywrightError

text \<open>
  A Python \<^verbatim>\<open>float\<close>: a finite double is given by the rational number it denotes
  (\<open>3.0\<close> is \<open>Finite 3\<close>); the signed zero, the infinities and NaN are separate values.
\<close>

datatype pyfloat = Finite rat | NegZero | PosInf | NegInf | NaN

text \<open>
  What \<^verbatim>\<open>response.json()\<close> can return. A \<open>JDict\<close> lists the items of the dict in
  insertion order (keys distinct); lookup takes the first item with the key.
\<close>

datatype json =
    JNull
  | JBool bool
  | JInt int
  | JFloat pyfloat
  | JStr string
  | JList "json list"
  | JDict "(string \<times> json) list"

type_synonym Coordinate = "pyfloat \<times> pyfloat"

record ResourceGroup =
  resource_type :: string
  coordinates :: "Coordinate list"

text \<open>Sequencing of computations that may raise: the first exception wins.\<close>

definition bind_err :: "error + 'a \<Rightarrow> ('a \<Rightarrow> error + 'b) \<Rightarrow> error + 'b" where
  "bind_err r f = (case r of Inl e \<Rightarrow> Inl e | Inr v \<Rightarrow> f v)"

subsection \<open>The built-in operations the source applies to these values\<close>

text \<open>\<^verbatim>\<open>isinstance(v, Mapping)\<close>\<close>

fun is_mapping :: "json \<Rightarrow> bool" where
  "is_mapping (JDict kvs) = True"
| "is_mapping v = False"

fun starts_with :: "string \<Rightarrow> string \<Rightarrow> bool" where
  "starts_with [] s = True"
| "starts_with (c # cs) [] = False"
| "starts_with (c # cs) (d # ds) = (c = d \<and> starts_with cs ds)"

fun str_contains :: "string \<Rightarrow> string \<Rightarrow> bool" where
  "str_contains sub [] = (sub = [])"
| "str_contains sub (c # s) = (starts_with sub (c # s) \<or> str_contains sub s)"

text \<open>
  \<^verbatim>\<open>k in v\<close> for a string \<open>k\<close>: key membership in a dict, element membership in a
  list, substring test in a string, \<^verbatim>\<open>TypeError\<close> on a value that is no container.
\<close>

fun py_contains :: "string \<Rightarrow> json \<Rightarrow> error + bool" where
  "py_contains k (JDict kvs) = Inr (k \<in> fst ` set kvs)"
| "py_contains k (JList xs) = Inr (JStr k \<in> set xs)"
| "py_contains k (JStr s) = Inr (str_contains k s)"
| "py_contains k v = Inl TypeError"

text \<open>\<^verbatim>\<open>v[k]\<close> for a string \<open>k\<close>: only a dict can be indexed by a string.\<close>

fun py_getitem :: "json \<Rightarrow> string \<Rightarrow> error + json" where
  "py_getitem (JDict kvs) k = (case map_of kvs k of None \<Rightarrow> Inl KeyError | Some v \<Rightarrow> Inr v)"
| "py_getitem v k = Inl TypeError"

text \<open>\<^verbatim>\<open>v.get(k, d)\<close>: only a dict has the method.\<close>

fun py_get :: "json \<Rightarrow> string \<Rightarrow> json \<Rightarrow> error + json" where
  "py_get (JDict kvs) k d = Inr (case map_of kvs k of None \<Rightarrow> d | Some v \<Rightarrow> v)"
| "py_get v k d = Inl AttributeError"

text \<open>
  \<^verbatim>\<open>float(n)\<close> for an int: exact below \<open>2^53\<close>; above, the nearest double (53
  significant bits, ties to even), and \<^verbatim>\<open>OverflowError\<close> when that is \<open>2^1024\<close> or more.
\<close>

definition float_of_int :: "int \<Rightarrow> error + pyfloat" where
  "float_of_int n =
     (if \<bar>n\<bar> < 2 ^ 53 then Inr (Finite (of_int n))
      else
        let a = \<bar>n\<bar>;
            sh = nat (bitlen a) - 53;
            q = a div 2 ^ sh;
            r = a mod 2 ^ sh;
            q' = (if 2 * r > 2 ^ sh \<or> (2 * r = 2 ^ sh \<and> odd q) then q + 1 else q);
            v = q' * 2 ^ sh
        in if v \<ge> 2 ^ 1024 then Inl OverflowError
           else Inr (Finite (of_int (sgn n * v))))"

text \<open>
  \<^verbatim>\<open>float(v)\<close>. The parser of float literals in strings belongs to the interpreter, not
  to this module; it is the parameter \<open>sf\<close>, with \<open>None\<close> for a string it rejects.
\<close>

fun py_float :: "(string \<Rightarrow> pyfloat option) \<Rightarrow> json \<Rightarrow> error + pyfloat" where
  "py_float sf (JInt n) = float_of_int n"
| "py_float sf (JFloat f) = Inr f"
| "py_float sf (JBool b) = Inr (Finite (if b then 1 else 0))"
| "py_float sf (JStr s) = (case sf s of None \<Rightarrow> Inl ValueError | Some f \<Rightarrow> Inr f)"
| "py_float sf v = Inl TypeError"

section \<open>Resource classifier\<close>

text \<open>
  \<^verbatim>\<open>_extract_coordinate\<close> (an Isabelle name cannot start with an underscore):
  \<^verbatim>\<open>
  if "coordinates" in tree_like and isinstance(tree_like["coordinates"], Mapping):
      data = tree_like["coordinates"]
      return float(data.get("x", 0)), float(data.get("y", 0))
  return float(tree_like.get("x", 0)), float(tree_like.get("y", 0))
  \<close>
\<close>

definition extract_coordinate :: "(string \<Rightarrow> pyfloat option) \<Rightarrow> json \<Rightarrow> error + Coordinate" where
  "extract_coordinate sf tree_like =
     bind_err (py_contains ''coordinates'' tree_like) (\<lambda>has.
     bind_err (if has
               then bind_err (py_getitem tree_like ''coordinates'') (\<lambda>v. Inr (is_mapping v))
               else Inr False) (\<lambda>nested.
     if nested then
       bind_err (py_getitem tree_like ''coordinates'') (\<lambda>data.
       bind_err (bind_err (py_get data ''x'' (JInt 0)) (py_float sf)) (\<lambda>x.
       bind_err (bind_err (py_get data ''y'' (JInt 0)) (py_float sf)) (\<lambda>y.
       Inr (x, y))))
     else
       bind_err (bind_err (py_get tree_like ''x'' (JInt 0)) (py_float sf)) (\<lambda>x.
       bind_err (bind_err (py_get tree_like ''y'' (JInt 0)) (py_float sf)) (\<lambda>y.
       Inr (x, y)))))"

text \<open>
  What a \<^verbatim>\<open>for\<close> loop iterates over: the elements of a list, the keys of a dict, the
  one-character strings of a string; \<^verbatim>\<open>TypeError\<close> on a value that is not iterable.
\<close>

fun py_iter :: "json \<Rightarrow> error + json list" where
  "py_iter (JList xs) = Inr xs"
| "py_iter (JDict kvs) = Inr (map (\<lambda>kv. JStr (fst kv)) kvs)"
| "py_iter (JStr s) = Inr (map (\<lambda>c. JStr [c]) s)"
| "py_iter v = Inl TypeError"

text \<open>
  The body of the loop of \<^verbatim>\<open>parse_resource_groups\<close> after the extraction:
  \<^verbatim>\<open>grouped.setdefault("trees", ResourceGroup("trees", [])).coordinates.append(coords)\<close>
\<close>

definition append_tree :: "(string \<rightharpoonup> ResourceGroup) \<Rightarrow> Coordinate \<Rightarrow> (string \<rightharpoonup> ResourceGroup)" where
  "append_tree grouped coords =
     (let g = (case grouped ''trees'' of
                 None \<Rightarrow> \<lparr>resource_type = ''trees'', coordinates = []\<rparr>
               | Some g \<Rightarrow> g)
      in grouped(''trees'' \<mapsto> g\<lparr>coordinates := coordinates g @ [coords]\<rparr>))"

text \<open>The loop \<^verbatim>\<open>for tree in trees\<close>: an exception of the extraction leaves the loop.\<close>

fun group_trees ::
  "(string \<Rightarrow> pyfloat option) \<Rightarrow> json list \<Rightarrow> (string \<rightharpoonup> ResourceGroup)
    \<Rightarrow> error + (string \<rightharpoonup> ResourceGroup)" where
  "group_trees sf [] grouped = Inr grouped"
| "group_trees sf (tree # rest) grouped =
     bind_err (extract_coordinate sf tree) (\<lambda>coords.
     group_trees sf rest (append_tree grouped coords))"

text \<open>
  \<^verbatim>\<open>
  grouped = {}
  trees = farm_data.get("trees", []) if isinstance(farm_data, Mapping) else []
  for tree in trees: ...
  return grouped
  \<close>
\<close>

definition parse_resource_groups ::
  "(string \<Rightarrow> pyfloat option) \<Rightarrow> json \<Rightarrow> error + (string \<rightharpoonup> ResourceGroup)" where
  "parse_resource_groups sf farm_data =
     bind_err (if is_mapping farm_data then py_get farm_data ''trees'' (JList [])
               else Inr (JList [])) (\<lambda>trees.
     bind_err (py_iter trees) (\<lambda>ts.
     group_trees sf ts Map.empty))"

section \<open>Purchase policy\<close>

text \<open>
  \<^verbatim>\<open>f > n\<close> for a float and an int: Python compares the exact values; NaN is greater than
  nothing.
\<close>

fun float_gt_int :: "pyfloat \<Rightarrow> int \<Rightarrow> bool" where
  "float_gt_int (Finite r) n = (r > of_int n)"
| "float_gt_int NegZero n = (0 > n)"
| "float_gt_int PosInf n = True"
| "float_gt_int NegInf n = False"
| "float_gt_int NaN n = False"

text \<open>\<^verbatim>\<open>v > n\<close> for an int \<open>n\<close>: defined on numbers, \<^verbatim>\<open>TypeError\<close> otherwise.\<close>

fun py_gt_int :: "json \<Rightarrow> int \<Rightarrow> error + bool" where
  "py_gt_int (JInt a) n = Inr (a > n)"
| "py_gt_int (JBool b) n = Inr ((if b then 1 else 0) > n)"
| "py_gt_int (JFloat f) n = Inr (float_gt_int f n)"
| "py_gt_int v n = Inl TypeError"

text \<open>
  \<^verbatim>\<open>
  axes = inventory.get("axes", 0)
  gold = inventory.get("gold", 0)
  return axes > 10 or gold > 500
  \<close>
  The \<^verbatim>\<open>or\<close> does not evaluate its second operand when the first is true.
\<close>

definition should_purchase_axes :: "json \<Rightarrow> error + bool" where
  "should_purchase_axes inventory =
     bind_err (py_get inventory ''axes'' (JInt 0)) (\<lambda>axes.
     bind_err (py_get inventory ''gold'' (JInt 0)) (\<lambda>gold.
     bind_err (py_gt_int axes 10) (\<lambda>many_axes.
     if many_axes then Inr True else py_gt_int gold 500)))"

section \<open>Farm data fetcher\<close>

text \<open>
  The HTTP client is outside the module: \<open>http url headers timeout\<close> stands for
  \<^verbatim>\<open>requests.get\<close> followed by \<^verbatim>\<open>raise_for_status()\<close> and \<^verbatim>\<open>json()\<close>, an exception of
  any of the three being its \<open>Inl\<close>.
\<close>

type_synonym http_client = "string \<Rightarrow> (string \<times> string) list \<Rightarrow> nat \<Rightarrow> error + json"

definition fetch_farm_data :: "http_client \<Rightarrow> string \<Rightarrow> string \<Rightarrow> error + json" where
  "fetch_farm_data http farm_id api_key =
     http (''https://api.sunflower-land.com/community/farms/'' @ farm_id)
          [(''x-api-key'', api_key)] 30"

section \<open>Session driver\<close>

text \<open>
  The calls the module makes into Playwright, in the order they return. The browser is
  outside the module: \<open>br made e\<close> tells whether the call \<open>e\<close>, coming after the calls
  \<open>made\<close>, returns normally; when it does not, the call raises and is not recorded.
\<close>

datatype event =
    PlaywrightStart
  | LaunchPersistentContext string bool nat nat
  | NewPage
  | Goto string string
  | MouseClick pyfloat pyfloat
  | ContextClose
  | PlaywrightStop

type_synonym browser = "event list \<Rightarrow> event \<Rightarrow> bool"

type_synonym outcome = "(error + unit) \<times> event list"

definition call :: "browser \<Rightarrow> event \<Rightarrow> event list \<Rightarrow> outcome" where
  "call br e made = (if br made e then (Inr (), made @ [e]) else (Inl PlaywrightError, made))"

text \<open>Statement sequencing: what follows a call that raised is not run.\<close>

definition and_then :: "outcome \<Rightarrow> (event list \<Rightarrow> outcome) \<Rightarrow> outcome" where
  "and_then r f = (case fst r of Inl e \<Rightarrow> (Inl e, snd r) | Inr u \<Rightarrow> f (snd r))"

definition create_browser_context :: "browser \<Rightarrow> string \<Rightarrow> event list \<Rightarrow> outcome" where
  "create_browser_context br profile_dir made =
     call br (LaunchPersistentContext profile_dir False 1280 720) made"

definition go_to_game :: "browser \<Rightarrow> event list \<Rightarrow> outcome" where
  "go_to_game br made =
     and_then (call br NewPage made)
       (call br (Goto ''https://sunflower-land.com/play/'' ''domcontentloaded''))"

definition click_store_for_axes :: "browser \<Rightarrow> Coordinate \<Rightarrow> event list \<Rightarrow> outcome" where
  "click_store_for_axes br store_coordinate made =
     (case store_coordinate of (x, y) \<Rightarrow> call br (MouseClick x y) made)"

text \<open>The inner loop \<^verbatim>\<open>for _ in range(3): page.mouse.click(x, y)\<close>, for any count.\<close>

fun click_times :: "browser \<Rightarrow> nat \<Rightarrow> pyfloat \<Rightarrow> pyfloat \<Rightarrow> event list \<Rightarrow> outcome" where
  "click_times br 0 x y made = (Inr (), made)"
| "click_times br (Suc n) x y made =
     and_then (call br (MouseClick x y) made) (click_times br n x y)"

text \<open>The outer loop \<^verbatim>\<open>for x, y in tree_coordinates\<close>.\<close>

fun chop_trees :: "browser \<Rightarrow> Coordinate list \<Rightarrow> event list \<Rightarrow> outcome" where
  "chop_trees br [] made = (Inr (), made)"
| "chop_trees br ((x, y) # rest) made =
     and_then (click_times br 3 x y made) (chop_trees br rest)"

section \<open>Orchestrator\<close>

text \<open>
  \<^verbatim>\<open>with sync_playwright() as playwright: body\<close>: the driver is stopped when the body
  returns and when it raises; an exception of the body is raised again after the stop.
\<close>

definition with_playwright :: "browser \<Rightarrow> (event list \<Rightarrow> outcome) \<Rightarrow> event list \<Rightarrow> outcome" where
  "with_playwright br body made =
     and_then (call br PlaywrightStart made) (\<lambda>started.
       let r = body started
       in and_then (call br PlaywrightStop (snd r)) (\<lambda>stopped. (fst r, stopped)))"

text \<open>
  \<^verbatim>\<open>
  farm_data = fetch_farm_data(farm_id=farm_id, api_key=api_key)
  resources = parse_resource_groups(farm_data)
  if not should_purchase_axes(inventory):
      return
  tree_coordinates = resources.get("trees", ResourceGroup("trees", [])).coordinates
  if not tree_coordinates:
      return
  with sync_playwright() as playwright:
      context = create_browser_context(playwright, profile_dir)
      page = go_to_game(context)
      click_store_for_axes(page, store_coordinate)
      chop_trees(page, tree_coordinates)
      context.close()
  \<close>
  The result is the outcome of the run and the Playwright calls it made.
\<close>

definition run_bot ::
  "(string \<Rightarrow> pyfloat option) \<Rightarrow> http_client \<Rightarrow> browser
    \<Rightarrow> string \<Rightarrow> string \<Rightarrow> string \<Rightarrow> Coordinate \<Rightarrow> json \<Rightarrow> outcome" where
  "run_bot sf http br farm_id api_key profile_dir store_coordinate inventory =
     (case fetch_farm_data http farm_id api_key of
        Inl e \<Rightarrow> (Inl e, [])
      | Inr farm_data \<Rightarrow>
     (case parse_resource_groups sf farm_data of
        Inl e \<Rightarrow> (Inl e, [])
      | Inr resources \<Rightarrow>
     (case should_purchase_axes inventory of
        Inl e \<Rightarrow> (Inl e, [])
      | Inr purchase \<Rightarrow>
     if \<not> purchase then (Inr (), [])
     else
       let tree_coordinates =
             coordinates (case resources ''trees'' of
                            None \<Rightarrow> \<lparr>resource_type = ''trees'', coordinates = []\<rparr>
                          | Some g \<Rightarrow> g)
       in if tree_coordinates = [] then (Inr (), [])
          else
            with_playwright br (\<lambda>started.
              and_then (create_browser_context br profile_dir started) (\<lambda>context.
              and_then (go_to_game br context) (\<lambda>page.
              and_then (click_store_for_axes br store_coordinate page) (\<lambda>bought.
              and_then (chop_trees br tree_coordinates bought) (\<lambda>chopped.
              call br ContextClose chopped))))) [])))"

section \<open>Farm data the classifier tolerates\<close>

text \<open>
  The farm data on which the classifier returns, and what it returns there, written from
  the description of the classifier rather than from its code. \<open>None\<close> stands for farm
  data that is not tolerated.
\<close>

text \<open>
  The values \<^verbatim>\<open>float\<close> accepts: a float, a bool, an int whose nearest double is
  finite, a string that the string parser accepts.
\<close>

fun accepted_float :: "(string \<Rightarrow> pyfloat option) \<Rightarrow> json \<Rightarrow> pyfloat option" where
  "accepted_float sf (JFloat f) = Some f"
| "accepted_float sf (JBool b) = Some (Finite (if b then 1 else 0))"
| "accepted_float sf (JInt n) = (case float_of_int n of Inl e \<Rightarrow> None | Inr f \<Rightarrow> Some f)"
| "accepted_float sf (JStr s) = sf s"
| "accepted_float sf v = None"

text \<open>An axis of a mapping: \<open>0.0\<close> when the key is missing.\<close>

definition axis_or_zero ::
  "(string \<Rightarrow> pyfloat option) \<Rightarrow> (string \<times> json) list \<Rightarrow> string \<Rightarrow> pyfloat option" where
  "axis_or_zero sf m k =
     (case map_of m k of None \<Rightarrow> Some (Finite 0) | Some v \<Rightarrow> accepted_float sf v)"

text \<open>
  A tolerated tree entry is a mapping; its axes are those of the nested
  \<^verbatim>\<open>"coordinates"\<close> mapping when there is one, the top-level ones otherwise.
\<close>

fun tolerated_coordinate :: "(string \<Rightarrow> pyfloat option) \<Rightarrow> json \<Rightarrow> Coordinate option" where
  "tolerated_coordinate sf (JDict kvs) =
     (let m = (case map_of kvs ''coordinates'' of Some (JDict d) \<Rightarrow> d | _ \<Rightarrow> kvs)
      in case axis_or_zero sf m ''x'' of
           None \<Rightarrow> None
         | Some x \<Rightarrow> (case axis_or_zero sf m ''y'' of None \<Rightarrow> None | Some y \<Rightarrow> Some (x, y)))"
| "tolerated_coordinate sf v = None"

text \<open>
  A tolerated \<^verbatim>\<open>"trees"\<close> value is a list, whose elements are the tree entries, or an
  empty mapping or string, which has none.
\<close>

fun tolerated_entries :: "json \<Rightarrow> json list option" where
  "tolerated_entries (JList ts) = Some ts"
| "tolerated_entries (JDict kvs) = (if kvs = [] then Some [] else None)"
| "tolerated_entries (JStr s) = (if s = [] then Some [] else None)"
| "tolerated_entries v = None"

text \<open>No coordinate gives no group; otherwise the only group is \<^verbatim>\<open>"trees"\<close>.\<close>

definition tree_group :: "Coordinate list \<Rightarrow> (string \<rightharpoonup> ResourceGroup)" where
  "tree_group cs =
     (if cs = [] then Map.empty
      else [''trees'' \<mapsto> \<lparr>resource_type = ''trees'', coordinates = cs\<rparr>])"

fun tolerated_groups ::
  "(string \<Rightarrow> pyfloat option) \<Rightarrow> json \<Rightarrow> (string \<rightharpoonup> ResourceGroup) option" where
  "tolerated_groups sf (JDict kvs) =
     (case map_of kvs ''trees'' of
        None \<Rightarrow> Some Map.empty
      | Some v \<Rightarrow>
          (case tolerated_entries v of
             None \<Rightarrow> None
           | Some ts \<Rightarrow> map_option tree_group (those (map (tolerated_coordinate sf) ts))))"
| "tolerated_groups sf v = Some Map.empty"

text \<open>The Playwright calls of a harvest: three clicks at each coordinate, in order.\<close>

definition harvest_clicks :: "Coordinate list \<Rightarrow> event list" where
  "harvest_clicks cs = concat (map (\<lambda>c. replicate 3 (MouseClick (fst c) (snd c))) cs)"

section \<open>Coordinate extraction: properties\<close>

lemma bind_err_simps:
  "bind_err (Inl e) f = Inl e"
  "bind_err (Inr v) f = f v"
  by (simp_all add: bind_err_def)

lemma float_of_int_small: "\<bar>n\<bar> < 2 ^ 53 \<Longrightarrow> float_of_int n = Inr (Finite (of_int n))"
  by (simp add: float_of_int_def)

lemma float_of_int_zero: "float_of_int 0 = Inr (Finite 0)"
  by (simp add: float_of_int_def)

lemma py_contains_dict: "py_contains k (JDict kvs) = Inr (map_of kvs k \<noteq> None)"
  by (simp add: map_of_eq_None_iff)

lemma extract_coordinate_nested:
  "map_of kvs ''coordinates'' = Some (JDict d) \<Longrightarrow>
   extract_coordinate sf (JDict kvs) =
     bind_err (py_float sf (case map_of d ''x'' of None \<Rightarrow> JInt 0 | Some v \<Rightarrow> v)) (\<lambda>x.
     bind_err (py_float sf (case map_of d ''y'' of None \<Rightarrow> JInt 0 | Some v \<Rightarrow> v)) (\<lambda>y.
     Inr (x, y)))"
  by (simp add: extract_coordinate_def py_contains_dict bind_err_simps del: py_contains.simps)

lemma extract_coordinate_flat:
  "\<forall>d. map_of kvs ''coordinates'' \<noteq> Some (JDict d) \<Longrightarrow>
   extract_coordinate sf (JDict kvs) =
     bind_err (py_float sf (case map_of kvs ''x'' of None \<Rightarrow> JInt 0 | Some v \<Rightarrow> v)) (\<lambda>x.
     bind_err (py_float sf (case map_of kvs ''y'' of None \<Rightarrow> JInt 0 | Some v \<Rightarrow> v)) (\<lambda>y.
     Inr (x, y)))"
proof (cases "map_of kvs ''coordinates''")
  case None
  then show ?thesis
    by (simp add: extract_coordinate_def py_contains_dict bind_err_simps del: py_contains.simps)
next
  case (Some v)
  assume "\<forall>d. map_of kvs ''coordinates'' \<noteq> Some (JDict d)"
  with Some have "\<not> is_mapping v" by (cases v) simp_all
  with Some show ?thesis
    by (simp add: extract_coordinate_def py_contains_dict bind_err_simps del: py_contains.simps)
qed

text \<open>
  Claim C5. Whatever the values \<open>vx\<close> and \<open>vy\<close> are, the flat entry
  \<^verbatim>\<open>{"x": vx, "y": vy}\<close> and the nested entry \<^verbatim>\<open>{"coordinates": {"x": vx, "y": vy}}\<close>
  give the same result of the extraction (the same coordinate, or the same exception);
  for \<open>3\<close> and \<open>4\<close> both give \<open>(3.0, 4.0)\<close>.
\<close>

theorem flat_and_nested_schema_agree:
  "extract_coordinate sf (JDict [(''x'', vx), (''y'', vy)]) =
     extract_coordinate sf (JDict [(''coordinates'', JDict [(''x'', vx), (''y'', vy)])])
   \<and> extract_coordinate sf (JDict [(''x'', JInt 3), (''y'', JInt 4)]) = Inr (Finite 3, Finite 4)
   \<and> extract_coordinate sf (JDict [(''coordinates'', JDict [(''x'', JInt 3), (''y'', JInt 4)])])
       = Inr (Finite 3, Finite 4)"
proof -
  have flat: "extract_coordinate sf (JDict [(''x'', a), (''y'', b)]) =
      bind_err (py_float sf a) (\<lambda>x. bind_err (py_float sf b) (\<lambda>y. Inr (x, y)))" for a b
    by (simp add: extract_coordinate_flat)
  have nested: "extract_coordinate sf (JDict [(''coordinates'', JDict [(''x'', a), (''y'', b)])]) =
      bind_err (py_float sf a) (\<lambda>x. bind_err (py_float sf b) (\<lambda>y. Inr (x, y)))" for a b
    by (simp add: extract_coordinate_nested)
  have three: "py_float sf (JInt 3) = Inr (Finite 3)" and four: "py_float sf (JInt 4) = Inr (Finite 4)"
    by (simp_all add: float_of_int_small)
  show ?thesis
    by (simp only: flat nested three four bind_err_simps simp_thms)
qed

text \<open>
  Claim C6. A tree entry with no nested \<^verbatim>\<open>"coordinates"\<close> mapping and neither
  \<^verbatim>\<open>"x"\<close> nor \<^verbatim>\<open>"y"\<close> gives \<open>(0.0, 0.0)\<close>. Each axis defaults on its own: with only
  \<^verbatim>\<open>"y"\<close> present the result is \<open>(0.0, float(y))\<close>, with only \<^verbatim>\<open>"x"\<close> present it is
  \<open>(float(x), 0.0)\<close>; a nested mapping with neither key gives \<open>(0.0, 0.0)\<close> as well.
\<close>

theorem missing_axes_default_to_zero:
  "(map_of kvs ''x'' = None \<and> map_of kvs ''y'' = None \<and>
      (\<forall>d. map_of kvs ''coordinates'' \<noteq> Some (JDict d))
      \<longrightarrow> extract_coordinate sf (JDict kvs) = Inr (Finite 0, Finite 0))
   \<and> (map_of kvs ''x'' = None \<and> map_of kvs ''y'' = Some vy \<and> py_float sf vy = Inr fy \<and>
      (\<forall>d. map_of kvs ''coordinates'' \<noteq> Some (JDict d))
      \<longrightarrow> extract_coordinate sf (JDict kvs) = Inr (Finite 0, fy))
   \<and> (map_of kvs ''x'' = Some vx \<and> py_float sf vx = Inr fx \<and> map_of kvs ''y'' = None \<and>
      (\<forall>d. map_of kvs ''coordinates'' \<noteq> Some (JDict d))
      \<longrightarrow> extract_coordinate sf (JDict kvs) = Inr (fx, Finite 0))
   \<and> (map_of kvs ''coordinates'' = Some (JDict d) \<and> map_of d ''x'' = None \<and> map_of d ''y'' = None
      \<longrightarrow> extract_coordinate sf (JDict kvs) = Inr (Finite 0, Finite 0))"
proof -
  have zero: "float_of_int 0 = Inr (Finite 0)"
    by (rule float_of_int_zero)
  show ?thesis
    by (simp add: extract_coordinate_flat extract_coordinate_nested zero bind_err_simps)
qed

theorem missing_axes_default_to_zero_witness:
  "\<forall>sf. extract_coordinate sf (JDict [(''name'', JStr ''oak'')]) = Inr (Finite 0, Finite 0)
     \<and> extract_coordinate sf (JDict [(''y'', JInt 4)]) = Inr (Finite 0, Finite 4)
     \<and> extract_coordinate sf (JDict [(''x'', JInt 3)]) = Inr (Finite 3, Finite 0)
     \<and> extract_coordinate sf (JDict [(''coordinates'', JDict [])]) = Inr (Finite 0, Finite 0)"
proof (intro allI conjI)
  fix sf :: "string \<Rightarrow> pyfloat option"
  have four: "py_float sf (JInt 4) = Inr (Finite 4)" and three: "py_float sf (JInt 3) = Inr (Finite 3)"
    by (simp_all add: float_of_int_small)
  show "extract_coordinate sf (JDict [(''name'', JStr ''oak'')]) = Inr (Finite 0, Finite 0)"
    using missing_axes_default_to_zero [where kvs = "[(''name'', JStr ''oak'')]" and sf = sf] by simp
  show "extract_coordinate sf (JDict [(''y'', JInt 4)]) = Inr (Finite 0, Finite 4)"
    using missing_axes_default_to_zero
      [where kvs = "[(''y'', JInt 4)]" and vy = "JInt 4" and sf = sf and fy = "Finite 4"] four by simp
  show "extract_coordinate sf (JDict [(''x'', JInt 3)]) = Inr (Finite 3, Finite 0)"
    using missing_axes_default_to_zero
      [where kvs = "[(''x'', JInt 3)]" and vx = "JInt 3" and sf = sf and fx = "Finite 3"] three
    by simp
  show "extract_coordinate sf (JDict [(''coordinates'', JDict [])]) = Inr (Finite 0, Finite 0)"
    using missing_axes_default_to_zero
      [where kvs = "[(''coordinates'', JDict [])]" and sf = sf and d = "[]"]
    by simp
qed

lemma map_of_drop_key:
  "map_of (filter (\<lambda>kv. fst kv \<noteq> c) kvs) k = (if k = c then None else map_of kvs k)"
  by (induction kvs) auto

text \<open>
  Claim C10. When the key \<^verbatim>\<open>"coordinates"\<close> is present and its value is not a mapping,
  the extraction reads the top-level \<^verbatim>\<open>"x"\<close> and \<^verbatim>\<open>"y"\<close>, each defaulting to \<open>0\<close>: the
  result is that of the same entry without the \<^verbatim>\<open>"coordinates"\<close> key.
\<close>

theorem non_mapping_coordinates_falls_back:
  assumes "map_of kvs ''coordinates'' = Some v" and "\<not> is_mapping v"
  shows "extract_coordinate sf (JDict kvs) =
           bind_err (py_float sf (case map_of kvs ''x'' of None \<Rightarrow> JInt 0 | Some a \<Rightarrow> a)) (\<lambda>x.
           bind_err (py_float sf (case map_of kvs ''y'' of None \<Rightarrow> JInt 0 | Some b \<Rightarrow> b)) (\<lambda>y.
           Inr (x, y)))
         \<and> extract_coordinate sf (JDict kvs) =
           extract_coordinate sf (JDict (filter (\<lambda>kv. fst kv \<noteq> ''coordinates'') kvs))"
proof -
  from assms have flat: "\<forall>d. map_of kvs ''coordinates'' \<noteq> Some (JDict d)"
    by auto
  have dropped: "\<forall>d. map_of (filter (\<lambda>kv. fst kv \<noteq> ''coordinates'') kvs) ''coordinates'' \<noteq> Some (JDict d)"
    by (simp add: map_of_drop_key)
  show ?thesis
    by (simp add: extract_coordinate_flat [OF flat] extract_coordinate_flat [OF dropped]
        map_of_drop_key)
qed

theorem non_mapping_coordinates_falls_back_witness:
  "\<forall>sf. extract_coordinate sf (JDict [(''coordinates'', JInt 7), (''x'', JInt 3), (''y'', JInt 4)])
           = Inr (Finite 3, Finite 4)
     \<and> extract_coordinate sf (JDict [(''coordinates'', JNull), (''y'', JInt 4)])
           = Inr (Finite 0, Finite 4)"
proof (intro allI conjI)
  fix sf :: "string \<Rightarrow> pyfloat option"
  have nums: "float_of_int 0 = Inr (Finite 0)" "float_of_int 3 = Inr (Finite 3)"
      "float_of_int 4 = Inr (Finite 4)"
    by (simp_all add: float_of_int_small)
  show "extract_coordinate sf (JDict [(''coordinates'', JInt 7), (''x'', JInt 3), (''y'', JInt 4)])
           = Inr (Finite 3, Finite 4)"
    using non_mapping_coordinates_falls_back
      [where kvs = "[(''coordinates'', JInt 7), (''x'', JInt 3), (''y'', JInt 4)]"
         and v = "JInt 7" and sf = sf]
    by (simp add: nums bind_err_simps)
  show "extract_coordinate sf (JDict [(''coordinates'', JNull), (''y'', JInt 4)])
           = Inr (Finite 0, Finite 4)"
    using non_mapping_coordinates_falls_back
      [where kvs = "[(''coordinates'', JNull), (''y'', JInt 4)]" and v = JNull and sf = sf]
    by (simp add: nums bind_err_simps)
qed

section \<open>Resource classifier: properties\<close>

text \<open>
  Claim C7. On an input that is not a mapping, and on a mapping without the key
  \<^verbatim>\<open>"trees"\<close>, the classifier returns the empty mapping; it does not raise.
\<close>

theorem no_trees_gives_empty_mapping:
  "(\<not> is_mapping farm_data \<longrightarrow> parse_resource_groups sf farm_data = Inr Map.empty)
   \<and> (map_of kvs ''trees'' = None \<longrightarrow> parse_resource_groups sf (JDict kvs) = Inr Map.empty)"
  by (simp add: parse_resource_groups_def bind_err_simps)

theorem no_trees_gives_empty_mapping_witness:
  "\<forall>sf. parse_resource_groups sf JNull = Inr Map.empty
     \<and> parse_resource_groups sf (JList [JDict [(''x'', JInt 1)]]) = Inr Map.empty
     \<and> parse_resource_groups sf (JStr ''trees'') = Inr Map.empty
     \<and> parse_resource_groups sf (JDict []) = Inr Map.empty
     \<and> parse_resource_groups sf (JDict [(''stones'', JList [JDict [(''x'', JInt 1)]])]) = Inr Map.empty"
proof (intro allI conjI)
  fix sf :: "string \<Rightarrow> pyfloat option"
  show "parse_resource_groups sf JNull = Inr Map.empty"
    using no_trees_gives_empty_mapping [where farm_data = JNull and sf = sf] by simp
  show "parse_resource_groups sf (JList [JDict [(''x'', JInt 1)]]) = Inr Map.empty"
    using no_trees_gives_empty_mapping
      [where farm_data = "JList [JDict [(''x'', JInt 1)]]" and sf = sf] by simp
  show "parse_resource_groups sf (JStr ''trees'') = Inr Map.empty"
    using no_trees_gives_empty_mapping [where farm_data = "JStr ''trees''" and sf = sf] by simp
  show "parse_resource_groups sf (JDict []) = Inr Map.empty"
    using no_trees_gives_empty_mapping [where sf = sf and kvs = "[]"] by simp
  show "parse_resource_groups sf (JDict [(''stones'', JList [JDict [(''x'', JInt 1)]])]) = Inr Map.empty"
    using no_trees_gives_empty_mapping
      [where sf = sf and kvs = "[(''stones'', JList [JDict [(''x'', JInt 1)]])]"]
    by simp
qed


lemma group_trees_from_group:
  "map (extract_coordinate sf) ts = map Inr cs \<Longrightarrow> grouped ''trees'' = Some g \<Longrightarrow>
   group_trees sf ts grouped = Inr (grouped(''trees'' \<mapsto> g\<lparr>coordinates := coordinates g @ cs\<rparr>))"
proof (induction ts arbitrary: cs grouped g)
  case Nil
  then show ?case by (simp add: map_upd_triv)
next
  case (Cons t ts)
  from Cons.prems(1) obtain c cs' where cs: "cs = c # cs'"
    and c: "extract_coordinate sf t = Inr c"
    and rest: "map (extract_coordinate sf) ts = map Inr cs'"
    by (cases cs) auto
  let ?g' = "g\<lparr>coordinates := coordinates g @ [c]\<rparr>"
  have step: "append_tree grouped c = grouped(''trees'' \<mapsto> ?g')"
    using Cons.prems(2) by (simp add: append_tree_def)
  have "group_trees sf (t # ts) grouped = group_trees sf ts (grouped(''trees'' \<mapsto> ?g'))"
    by (simp add: c bind_err_simps step)
  also have "\<dots> = Inr ((grouped(''trees'' \<mapsto> ?g'))(''trees'' \<mapsto> ?g'\<lparr>coordinates := coordinates ?g' @ cs'\<rparr>))"
    by (rule Cons.IH [OF rest]) simp
  also have "\<dots> = Inr (grouped(''trees'' \<mapsto> g\<lparr>coordinates := coordinates g @ cs\<rparr>))"
    by (simp add: cs)
  finally show ?case .
qed

lemma group_trees_from_empty:
  assumes "map (extract_coordinate sf) ts = map Inr cs"
  shows "group_trees sf ts Map.empty =
     Inr (if cs = [] then Map.empty
          else [''trees'' \<mapsto> \<lparr>resource_type = ''trees'', coordinates = cs\<rparr>])"
proof (cases ts)
  case Nil
  with assms show ?thesis by simp
next
  case (Cons t ts')
  with assms obtain c cs' where cs: "cs = c # cs'"
    and c: "extract_coordinate sf t = Inr c"
    and rest: "map (extract_coordinate sf) ts' = map Inr cs'"
    by (cases cs) auto
  let ?g = "\<lparr>resource_type = ''trees'', coordinates = [c]\<rparr>"
  have first: "append_tree Map.empty c = [''trees'' \<mapsto> ?g]"
    by (simp add: append_tree_def)
  have "group_trees sf ts Map.empty = group_trees sf ts' [''trees'' \<mapsto> ?g]"
    by (simp add: Cons c bind_err_simps first)
  also have "\<dots> = Inr ([''trees'' \<mapsto> ?g](''trees'' \<mapsto> ?g\<lparr>coordinates := coordinates ?g @ cs'\<rparr>))"
    by (rule group_trees_from_group [OF rest]) simp
  also have "\<dots> = Inr (if cs = [] then Map.empty
          else [''trees'' \<mapsto> \<lparr>resource_type = ''trees'', coordinates = cs\<rparr>])"
    by (simp add: cs)
  finally show ?thesis .
qed

lemma group_trees_dom:
  "group_trees sf ts grouped = Inr res \<Longrightarrow> dom res \<subseteq> insert ''trees'' (dom grouped)"
proof (induction ts arbitrary: grouped)
  case Nil
  then show ?case by auto
next
  case (Cons t ts)
  from Cons.prems obtain c where c: "extract_coordinate sf t = Inr c"
    and rest: "group_trees sf ts (append_tree grouped c) = Inr res"
    by (cases "extract_coordinate sf t") (simp_all add: bind_err_simps)
  have "dom (append_tree grouped c) = insert ''trees'' (dom grouped)"
    by (simp add: append_tree_def Let_def)
  with Cons.IH [OF rest] show ?case by auto
qed

lemma parse_resource_groups_dom:
  "parse_resource_groups sf farm_data = Inr res \<Longrightarrow> dom res \<subseteq> {''trees''}"
  unfolding parse_resource_groups_def bind_err_def
  by (auto split: sum.splits if_splits dest!: group_trees_dom)

text \<open>
  Claim C8. Whatever the classifier returns has no key but \<^verbatim>\<open>"trees"\<close>. When the
  \<^verbatim>\<open>"trees"\<close> list has \<open>n\<close> entries and the extraction returns on each of them, giving
  the coordinates \<open>cs\<close> in the order of the entries, then \<open>cs\<close> has \<open>n\<close> elements and the
  result is the empty mapping for \<open>n = 0\<close> and otherwise the single group \<^verbatim>\<open>"trees"\<close>
  with exactly the coordinates \<open>cs\<close>.
\<close>

theorem trees_grouped_in_order:
  "(parse_resource_groups sf farm_data = Inr res \<longrightarrow> dom res \<subseteq> {''trees''})
   \<and> (map_of kvs ''trees'' = Some (JList ts) \<and> map (extract_coordinate sf) ts = map Inr cs
      \<longrightarrow> length cs = length ts
        \<and> parse_resource_groups sf (JDict kvs) =
            Inr (if ts = [] then Map.empty
                 else [''trees'' \<mapsto> \<lparr>resource_type = ''trees'', coordinates = cs\<rparr>]))"
proof (intro conjI impI)
  assume "parse_resource_groups sf farm_data = Inr res"
  then show "dom res \<subseteq> {''trees''}" by (rule parse_resource_groups_dom)
next
  assume h: "map_of kvs ''trees'' = Some (JList ts) \<and> map (extract_coordinate sf) ts = map Inr cs"
  then have len: "length (map (extract_coordinate sf) ts) = length (map Inr cs :: (error + Coordinate) list)"
    by simp
  then show "length cs = length ts" by simp
  then have "(ts = []) = (cs = [])" by auto
  with h show "parse_resource_groups sf (JDict kvs) =
            Inr (if ts = [] then Map.empty
                 else [''trees'' \<mapsto> \<lparr>resource_type = ''trees'', coordinates = cs\<rparr>])"
    by (simp add: parse_resource_groups_def bind_err_simps group_trees_from_empty)
qed

theorem trees_grouped_in_order_witness:
  "\<forall>sf. parse_resource_groups sf
          (JDict [(''id'', JInt 7),
                  (''trees'', JList [JDict [(''x'', JInt 1), (''y'', JInt 2)],
                                     JDict [(''coordinates'', JDict [(''x'', JInt 3), (''y'', JInt 4)])],
                                     JDict []])])
        = Inr [''trees'' \<mapsto> \<lparr>resource_type = ''trees'',
                 coordinates = [(Finite 1, Finite 2), (Finite 3, Finite 4), (Finite 0, Finite 0)]\<rparr>]"
proof
  fix sf :: "string \<Rightarrow> pyfloat option"
  let ?ts = "[JDict [(''x'', JInt 1), (''y'', JInt 2)],
              JDict [(''coordinates'', JDict [(''x'', JInt 3), (''y'', JInt 4)])],
              JDict []]"
  let ?cs = "[(Finite 1, Finite 2), (Finite 3, Finite 4), (Finite 0, Finite 0)]"
  have extracted: "map (extract_coordinate sf) ?ts = map Inr ?cs"
    by (simp add: extract_coordinate_flat extract_coordinate_nested float_of_int_small
        bind_err_simps)
  show "parse_resource_groups sf (JDict [(''id'', JInt 7), (''trees'', JList ?ts)])
        = Inr [''trees'' \<mapsto> \<lparr>resource_type = ''trees'', coordinates = ?cs\<rparr>]"
    using trees_grouped_in_order
      [where sf = sf and kvs = "[(''id'', JInt 7), (''trees'', JList ?ts)]" and ts = ?ts and cs = ?cs]
      extracted
    by simp
qed

lemma py_float_accepted: "(py_float sf v = Inr f) = (accepted_float sf v = Some f)"
  by (cases v) (auto split: sum.splits option.splits)

lemma axis_read_accepted:
  "(py_float sf (case map_of m k of None \<Rightarrow> JInt 0 | Some v \<Rightarrow> v) = Inr f)
     = (axis_or_zero sf m k = Some f)"
  by (cases "map_of m k") (auto simp add: axis_or_zero_def float_of_int_zero py_float_accepted)

lemma axes_read_accepted:
  "(bind_err (py_float sf (case map_of m ''x'' of None \<Rightarrow> JInt 0 | Some v \<Rightarrow> v)) (\<lambda>x.
    bind_err (py_float sf (case map_of m ''y'' of None \<Rightarrow> JInt 0 | Some v \<Rightarrow> v)) (\<lambda>y.
    Inr (x, y))) = Inr c)
   = ((case axis_or_zero sf m ''x'' of
         None \<Rightarrow> None
       | Some x \<Rightarrow> (case axis_or_zero sf m ''y'' of None \<Rightarrow> None | Some y \<Rightarrow> Some (x, y)))
      = Some c)"
proof -
  let ?px = "py_float sf (case map_of m ''x'' of None \<Rightarrow> JInt 0 | Some v \<Rightarrow> v)"
  let ?py = "py_float sf (case map_of m ''y'' of None \<Rightarrow> JInt 0 | Some v \<Rightarrow> v)"
  have x: "(?px = Inr f) = (axis_or_zero sf m ''x'' = Some f)" for f
    by (rule axis_read_accepted)
  have y: "(?py = Inr f) = (axis_or_zero sf m ''y'' = Some f)" for f
    by (rule axis_read_accepted)
  show ?thesis
  proof (cases ?px)
    case (Inl e)
    with x have "axis_or_zero sf m ''x'' = None"
      by (cases "axis_or_zero sf m ''x''") auto
    with Inl show ?thesis by (simp add: bind_err_simps)
  next
    case (Inr fx)
    with x [of fx] have ax: "axis_or_zero sf m ''x'' = Some fx" by simp
    show ?thesis
    proof (cases ?py)
      case (Inl e)
      with y have "axis_or_zero sf m ''y'' = None"
        by (cases "axis_or_zero sf m ''y''") auto
      with Inl Inr ax show ?thesis by (simp add: bind_err_simps)
    next
      case (Inr fy)
      with y [of fy] have "axis_or_zero sf m ''y'' = Some fy" by simp
      with Inr \<open>?px = Inr fx\<close> ax show ?thesis by (simp add: bind_err_simps)
    qed
  qed
qed

lemma extract_coordinate_tolerated:
  "(extract_coordinate sf t = Inr c) = (tolerated_coordinate sf t = Some c)"
proof (cases t)
  case (JDict kvs)
  show ?thesis
  proof (cases "\<exists>d. map_of kvs ''coordinates'' = Some (JDict d)")
    case True
    then obtain d where d: "map_of kvs ''coordinates'' = Some (JDict d)" ..
    show ?thesis
      unfolding JDict extract_coordinate_nested [OF d]
      by (simp add: d axes_read_accepted)
  next
    case False
    then have flat: "\<forall>d. map_of kvs ''coordinates'' \<noteq> Some (JDict d)" by simp
    then have m: "(case map_of kvs ''coordinates'' of Some (JDict d) \<Rightarrow> d | _ \<Rightarrow> kvs) = kvs"
      by (auto split: option.splits json.splits)
    show ?thesis
      unfolding JDict extract_coordinate_flat [OF flat]
      by (simp add: m axes_read_accepted)
  qed
qed (simp_all add: extract_coordinate_def bind_err_simps)

lemma extract_all_tolerated:
  "(map (extract_coordinate sf) ts = map Inr cs) = (those (map (tolerated_coordinate sf) ts) = Some cs)"
proof (induction ts arbitrary: cs)
  case Nil
  show ?case by auto
next
  case (Cons t ts)
  show ?case
  proof (cases cs)
    case Nil
    then show ?thesis by (auto split: option.splits)
  next
    case (Cons c cs')
    then show ?thesis
      by (auto simp add: Cons.IH extract_coordinate_tolerated split: option.splits)
  qed
qed

lemma group_trees_returns:
  "group_trees sf ts grouped = Inr res \<Longrightarrow> \<exists>cs. map (extract_coordinate sf) ts = map Inr cs"
proof (induction ts arbitrary: grouped)
  case Nil
  then show ?case by simp
next
  case (Cons t ts)
  from Cons.prems obtain c where c: "extract_coordinate sf t = Inr c"
    and rest: "group_trees sf ts (append_tree grouped c) = Inr res"
    by (cases "extract_coordinate sf t") (simp_all add: bind_err_simps)
  from Cons.IH [OF rest] obtain cs where "map (extract_coordinate sf) ts = map Inr cs" ..
  with c have "map (extract_coordinate sf) (t # ts) = map Inr (c # cs)" by simp
  then show ?case ..
qed

lemma group_trees_tolerated:
  "(group_trees sf ts Map.empty = Inr res)
     = (map_option tree_group (those (map (tolerated_coordinate sf) ts)) = Some res)"
proof
  assume r: "group_trees sf ts Map.empty = Inr res"
  from group_trees_returns [OF r] obtain cs
    where cs: "map (extract_coordinate sf) ts = map Inr cs" ..
  from group_trees_from_empty [OF cs] r have "res = tree_group cs"
    by (simp add: tree_group_def)
  with cs show "map_option tree_group (those (map (tolerated_coordinate sf) ts)) = Some res"
    by (simp add: extract_all_tolerated)
next
  assume "map_option tree_group (those (map (tolerated_coordinate sf) ts)) = Some res"
  then obtain cs where "those (map (tolerated_coordinate sf) ts) = Some cs"
    and res: "res = tree_group cs"
    by auto
  then have "map (extract_coordinate sf) ts = map Inr cs"
    by (simp add: extract_all_tolerated)
  from group_trees_from_empty [OF this] res
  show "group_trees sf ts Map.empty = Inr res"
    by (simp add: tree_group_def)
qed

lemma extract_coordinate_of_string: "\<exists>e. extract_coordinate sf (JStr s) = Inl e"
  by (simp add: extract_coordinate_def bind_err_simps)

lemma group_trees_of_strings:
  "ts \<noteq> [] \<Longrightarrow> \<exists>e. group_trees sf (map (\<lambda>x. JStr (f x)) ts) grouped = Inl e"
proof (cases ts)
  case Nil
  assume "ts \<noteq> []"
  with Nil show ?thesis by simp
next
  case (Cons t ts')
  obtain e where "extract_coordinate sf (JStr (f t)) = Inl e"
    using extract_coordinate_of_string by blast
  with Cons show ?thesis by (simp add: bind_err_simps)
qed

lemma iterate_tolerated:
  "(bind_err (py_iter v) (\<lambda>ts. group_trees sf ts Map.empty) = Inr res)
     = ((case tolerated_entries v of
           None \<Rightarrow> None
         | Some ts \<Rightarrow> map_option tree_group (those (map (tolerated_coordinate sf) ts))) = Some res)"
proof (cases v)
  case (JList ts)
  then show ?thesis by (simp add: bind_err_simps group_trees_tolerated del: group_trees.simps)
next
  case (JDict kvs)
  show ?thesis
  proof (cases "kvs = []")
    case True
    with JDict show ?thesis by (auto simp add: bind_err_simps tree_group_def)
  next
    case False
    from group_trees_of_strings [OF False, of sf fst Map.empty]
    obtain e where "group_trees sf (map (\<lambda>kv. JStr (fst kv)) kvs) Map.empty = Inl e" ..
    with JDict False show ?thesis by (simp add: bind_err_simps)
  qed
next
  case (JStr s)
  show ?thesis
  proof (cases "s = []")
    case True
    with JStr show ?thesis by (auto simp add: bind_err_simps tree_group_def)
  next
    case False
    from group_trees_of_strings [OF False, of sf "\<lambda>c. [c]" Map.empty]
    obtain e where "group_trees sf (map (\<lambda>c. JStr [c]) s) Map.empty = Inl e" ..
    with JStr False show ?thesis by (simp add: bind_err_simps)
  qed
qed (simp_all add: bind_err_simps)

text \<open>
  Claim C4, as amended. The extraction returns exactly on the tolerated tree entries (a
  mapping whose axes that are read are absent or accepted by \<^verbatim>\<open>float\<close>), and gives the
  coordinate with \<open>0.0\<close> for each absent axis. The classifier returns exactly on the
  tolerated farm data (not a mapping, or without \<^verbatim>\<open>"trees"\<close>, or with an empty list,
  mapping or string as \<^verbatim>\<open>"trees"\<close>, or with a \<^verbatim>\<open>"trees"\<close> list of tolerated entries);
  its result is the empty mapping when there is no tree entry and otherwise the single
  group \<^verbatim>\<open>"trees"\<close> with the coordinate of each entry, in the order of the entries.
\<close>

theorem classifier_returns_on_tolerated_data:
  "(extract_coordinate sf tree = Inr c) = (tolerated_coordinate sf tree = Some c)
   \<and> (parse_resource_groups sf farm_data = Inr res) = (tolerated_groups sf farm_data = Some res)"
proof
  show "(extract_coordinate sf tree = Inr c) = (tolerated_coordinate sf tree = Some c)"
    by (rule extract_coordinate_tolerated)
  show "(parse_resource_groups sf farm_data = Inr res) = (tolerated_groups sf farm_data = Some res)"
  proof (cases farm_data)
    case (JDict kvs)
    show ?thesis
    proof (cases "map_of kvs ''trees''")
      case None
      then show ?thesis
        by (auto simp add: JDict parse_resource_groups_def bind_err_simps)
    next
      case (Some v)
      then show ?thesis
        unfolding JDict parse_resource_groups_def
        by (simp add: bind_err_simps iterate_tolerated)
    qed
  qed (auto simp add: parse_resource_groups_def bind_err_simps)
qed


theorem classifier_returns_on_tolerated_data_witness:
  "\<forall>sf. extract_coordinate sf (JDict [(''coordinates'', JStr ''n/a''), (''y'', JBool True)])
           = Inr (Finite 0, Finite 1)
     \<and> parse_resource_groups sf
         (JDict [(''trees'', JList [JDict [(''x'', JFloat (Finite (7 / 2)))],
                                    JDict [(''coordinates'', JStr ''n/a''), (''y'', JBool True)],
                                    JDict [(''coordinates'', JDict [(''x'', JInt 3)]), (''y'', JInt 9)]])])
           = Inr [''trees'' \<mapsto> \<lparr>resource_type = ''trees'',
                    coordinates = [(Finite (7 / 2), Finite 0), (Finite 0, Finite 1),
                                   (Finite 3, Finite 0)]\<rparr>]
     \<and> parse_resource_groups sf (JDict [(''trees'', JList [])]) = Inr Map.empty
     \<and> parse_resource_groups sf (JDict [(''trees'', JDict [])]) = Inr Map.empty
     \<and> parse_resource_groups sf (JDict [(''trees'', JStr [])]) = Inr Map.empty"
proof (intro allI conjI)
  fix sf :: "string \<Rightarrow> pyfloat option"
  show "extract_coordinate sf (JDict [(''coordinates'', JStr ''n/a''), (''y'', JBool True)])
           = Inr (Finite 0, Finite 1)"
    using classifier_returns_on_tolerated_data
      [where sf = sf and tree = "JDict [(''coordinates'', JStr ''n/a''), (''y'', JBool True)]"
         and c = "(Finite 0, Finite 1)"]
    by (simp add: axis_or_zero_def)
  show "parse_resource_groups sf
         (JDict [(''trees'', JList [JDict [(''x'', JFloat (Finite (7 / 2)))],
                                    JDict [(''coordinates'', JStr ''n/a''), (''y'', JBool True)],
                                    JDict [(''coordinates'', JDict [(''x'', JInt 3)]), (''y'', JInt 9)]])])
           = Inr [''trees'' \<mapsto> \<lparr>resource_type = ''trees'',
                    coordinates = [(Finite (7 / 2), Finite 0), (Finite 0, Finite 1),
                                   (Finite 3, Finite 0)]\<rparr>]"
    using classifier_returns_on_tolerated_data
      [where sf = sf and farm_data =
          "JDict [(''trees'', JList [JDict [(''x'', JFloat (Finite (7 / 2)))],
                                     JDict [(''coordinates'', JStr ''n/a''), (''y'', JBool True)],
                                     JDict [(''coordinates'', JDict [(''x'', JInt 3)]), (''y'', JInt 9)]])]"
         and res = "[''trees'' \<mapsto> \<lparr>resource_type = ''trees'',
                    coordinates = [(Finite (7 / 2), Finite 0), (Finite 0, Finite 1),
                                   (Finite 3, Finite 0)]\<rparr>]"]
    by (simp add: axis_or_zero_def tree_group_def float_of_int_small del: group_trees.simps)
  show "parse_resource_groups sf (JDict [(''trees'', JList [])]) = Inr Map.empty"
    using classifier_returns_on_tolerated_data
      [where sf = sf and farm_data = "JDict [(''trees'', JList [])]" and res = Map.empty]
    by (simp add: tree_group_def)
  show "parse_resource_groups sf (JDict [(''trees'', JDict [])]) = Inr Map.empty"
    using classifier_returns_on_tolerated_data
      [where sf = sf and farm_data = "JDict [(''trees'', JDict [])]" and res = Map.empty]
    by (simp add: tree_group_def)
  show "parse_resource_groups sf (JDict [(''trees'', JStr [])]) = Inr Map.empty"
    using classifier_returns_on_tolerated_data
      [where sf = sf and farm_data = "JDict [(''trees'', JStr [])]" and res = Map.empty]
    by (simp add: tree_group_def)
qed

text \<open>
  Claim C4 as stated fails: the classifier raises on a tree entry that is not a mapping,
  on an axis that is \<^verbatim>\<open>null\<close>, on a \<^verbatim>\<open>"trees"\<close> value that is not iterable, and on a
  \<^verbatim>\<open>"trees"\<close> mapping keyed by tree id (the loop then runs over the keys, which are
  strings).
\<close>

theorem classifier_raises_on_malformed_trees:
  "parse_resource_groups Map.empty (JDict [(''trees'', JList [JInt 5])]) = Inl TypeError
   \<and> parse_resource_groups Map.empty (JDict [(''trees'', JList [JDict [(''x'', JNull), (''y'', JInt 2)]])])
       = Inl TypeError
   \<and> parse_resource_groups Map.empty (JDict [(''trees'', JInt 5)]) = Inl TypeError
   \<and> parse_resource_groups Map.empty
       (JDict [(''trees'', JDict [(''1'', JDict [(''x'', JInt 1), (''y'', JInt 2)])])])
       = Inl AttributeError"
  by (simp add: parse_resource_groups_def extract_coordinate_def bind_err_simps)

section \<open>Purchase policy: properties\<close>



section \<open>Session driver and orchestrator: properties\<close>

lemma and_then_simps:
  "and_then (Inl e, made) f = (Inl e, made)"
  "and_then (Inr u, made) f = f made"
  by (simp_all add: and_then_def)

lemma click_times_ok:
  "\<forall>made. br made (MouseClick x y) \<Longrightarrow>
   click_times br n x y made = (Inr (), made @ replicate n (MouseClick x y))"
proof (induction n arbitrary: made)
  case 0
  then show ?case by simp
next
  case (Suc n)
  then show ?case
    by (simp add: call_def and_then_simps replicate_app_Cons_same)
qed

lemma chop_trees_ok:
  "\<forall>made x y. br made (MouseClick x y) \<Longrightarrow>
   chop_trees br cs made = (Inr (), made @ harvest_clicks cs)"
proof (induction cs arbitrary: made)
  case Nil
  then show ?case by (simp add: harvest_clicks_def)
next
  case (Cons c cs)
  obtain x y where c: "c = (x, y)" by (cases c)
  from Cons.prems have "click_times br 3 x y made = (Inr (), made @ replicate 3 (MouseClick x y))"
    by (intro click_times_ok) simp
  with Cons show ?case
    by (simp add: c and_then_simps harvest_clicks_def del: click_times.simps)
qed

lemma length_harvest_clicks: "length (harvest_clicks cs) = 3 * length cs"
  by (induction cs) (simp_all add: harvest_clicks_def)

text \<open>
  Claim C9. When no click raises, harvesting \<open>n\<close> coordinates makes exactly the
  \<open>3 * n\<close> calls \<open>harvest_clicks\<close>: three consecutive clicks at each coordinate, the
  coordinates in sequence order.
\<close>

theorem chop_trees_three_clicks_each:
  assumes "\<forall>made x y. br made (MouseClick x y)"
  shows "chop_trees br cs made = (Inr (), made @ harvest_clicks cs)
         \<and> harvest_clicks cs = concat (map (\<lambda>c. replicate 3 (MouseClick (fst c) (snd c))) cs)
         \<and> length (harvest_clicks cs) = 3 * length cs"
  using assms by (simp add: chop_trees_ok length_harvest_clicks) (simp add: harvest_clicks_def)

theorem chop_trees_three_clicks_each_witness:
  "chop_trees (\<lambda>made e. True) [(Finite 1, Finite 2), (Finite 3, Finite 4), (Finite 5, Finite 6)] []
     = (Inr (),
        [MouseClick (Finite 1) (Finite 2), MouseClick (Finite 1) (Finite 2), MouseClick (Finite 1) (Finite 2),
         MouseClick (Finite 3) (Finite 4), MouseClick (Finite 3) (Finite 4), MouseClick (Finite 3) (Finite 4),
         MouseClick (Finite 5) (Finite 6), MouseClick (Finite 5) (Finite 6), MouseClick (Finite 5) (Finite 6)])
   \<and> length (harvest_clicks [(Finite 1, Finite 2), (Finite 3, Finite 4), (Finite 5, Finite 6)]) = 9"
  using chop_trees_three_clicks_each
    [where br = "\<lambda>made e. True"
       and cs = "[(Finite 1, Finite 2), (Finite 3, Finite 4), (Finite 5, Finite 6)]" and made = "[]"]
  by (simp add: numeral_3_eq_3)


lemma call_ok: "br made e \<Longrightarrow> call br e made = (Inr (), made @ [e])"
  by (simp add: call_def)

lemma session_ok:
  assumes ok: "\<forall>made e. br made e"
  shows "with_playwright br (\<lambda>started.
           and_then (create_browser_context br profile_dir started) (\<lambda>context.
           and_then (go_to_game br context) (\<lambda>page.
           and_then (click_store_for_axes br store_coordinate page) (\<lambda>bought.
           and_then (chop_trees br cs bought) (\<lambda>chopped.
           call br ContextClose chopped))))) []
         = (Inr (),
            [PlaywrightStart, LaunchPersistentContext profile_dir False 1280 720, NewPage,
             Goto ''https://sunflower-land.com/play/'' ''domcontentloaded'',
             MouseClick (fst store_coordinate) (snd store_coordinate)]
            @ harvest_clicks cs @ [ContextClose, PlaywrightStop])"
proof -
  have c: "call br e made = (Inr (), made @ [e])" for e made
    using ok by (simp add: call_ok)
  have chop: "chop_trees br cs made = (Inr (), made @ harvest_clicks cs)" for made
    using ok by (simp add: chop_trees_ok)
  show ?thesis
    by (simp add: with_playwright_def create_browser_context_def go_to_game_def
        click_store_for_axes_def c chop and_then_simps split_beta)
qed

text \<open>
  Claim C2. In a run where the fetch and the classifier return, the policy returns true,
  the \<^verbatim>\<open>"trees"\<close> group has \<open>n > 0\<close> coordinates and no Playwright call raises, the
  calls are: start, launch of the context, new page, navigation, one click at the store
  coordinate, the \<open>3 * n\<close> harvest clicks (three per coordinate, in classification
  order), close of the context, stop.
\<close>

theorem run_bot_purchase_and_harvest:
  assumes "fetch_farm_data http farm_id api_key = Inr farm_data"
      and "parse_resource_groups sf farm_data = Inr resources"
      and "should_purchase_axes inventory = Inr True"
      and "resources ''trees'' = Some g" and "coordinates g \<noteq> []"
      and "\<forall>made e. br made e"
  shows "run_bot sf http br farm_id api_key profile_dir store_coordinate inventory
         = (Inr (),
            [PlaywrightStart, LaunchPersistentContext profile_dir False 1280 720, NewPage,
             Goto ''https://sunflower-land.com/play/'' ''domcontentloaded'',
             MouseClick (fst store_coordinate) (snd store_coordinate)]
            @ harvest_clicks (coordinates g) @ [ContextClose, PlaywrightStop])
         \<and> harvest_clicks (coordinates g)
             = concat (map (\<lambda>c. replicate 3 (MouseClick (fst c) (snd c))) (coordinates g))
         \<and> length (harvest_clicks (coordinates g)) = 3 * length (coordinates g)"
proof (intro conjI)
  show "run_bot sf http br farm_id api_key profile_dir store_coordinate inventory
         = (Inr (),
            [PlaywrightStart, LaunchPersistentContext profile_dir False 1280 720, NewPage,
             Goto ''https://sunflower-land.com/play/'' ''domcontentloaded'',
             MouseClick (fst store_coordinate) (snd store_coordinate)]
            @ harvest_clicks (coordinates g) @ [ContextClose, PlaywrightStop])"
    unfolding run_bot_def using assms(1-5)
    by (simp add: session_ok [OF assms(6)])
  show "harvest_clicks (coordinates g)
          = concat (map (\<lambda>c. replicate 3 (MouseClick (fst c) (snd c))) (coordinates g))"
    by (simp add: harvest_clicks_def)
  show "length (harvest_clicks (coordinates g)) = 3 * length (coordinates g)"
    by (rule length_harvest_clicks)
qed

theorem run_bot_purchase_and_harvest_witness:
  "\<forall>sf. run_bot sf
       (\<lambda>url headers timeout.
          Inr (JDict [(''trees'', JList [JDict [(''x'', JInt 1), (''y'', JInt 2)],
                                         JDict [(''coordinates'', JDict [(''x'', JInt 3), (''y'', JInt 4)])]])]))
       (\<lambda>made e. True) ''farm-1'' ''key'' ''profile'' (Finite 5, Finite 6)
       (JDict [(''axes'', JInt 12), (''gold'', JInt 0)])
     = (Inr (),
        [PlaywrightStart, LaunchPersistentContext ''profile'' False 1280 720, NewPage,
         Goto ''https://sunflower-land.com/play/'' ''domcontentloaded'',
         MouseClick (Finite 5) (Finite 6),
         MouseClick (Finite 1) (Finite 2), MouseClick (Finite 1) (Finite 2), MouseClick (Finite 1) (Finite 2),
         MouseClick (Finite 3) (Finite 4), MouseClick (Finite 3) (Finite 4), MouseClick (Finite 3) (Finite 4),
         ContextClose, PlaywrightStop])"
proof
  fix sf :: "string \<Rightarrow> pyfloat option"
  let ?fd = "JDict [(''trees'', JList [JDict [(''x'', JInt 1), (''y'', JInt 2)],
                                       JDict [(''coordinates'', JDict [(''x'', JInt 3), (''y'', JInt 4)])]])]"
  let ?http = "\<lambda>(url :: string) (headers :: (string \<times> string) list) (timeout :: nat).
                 Inr ?fd :: error + json"
  let ?g = "\<lparr>resource_type = ''trees'', coordinates = [(Finite 1, Finite 2), (Finite 3, Finite 4)]\<rparr>"
  have fetched: "fetch_farm_data ?http ''farm-1'' ''key'' = Inr ?fd"
    by (simp add: fetch_farm_data_def)
  have "map (extract_coordinate sf)
          [JDict [(''x'', JInt 1), (''y'', JInt 2)],
           JDict [(''coordinates'', JDict [(''x'', JInt 3), (''y'', JInt 4)])]]
        = map Inr [(Finite 1, Finite 2), (Finite 3, Finite 4)]"
    by (simp add: extract_coordinate_flat extract_coordinate_nested float_of_int_small
        bind_err_simps)
  from group_trees_from_empty [OF this]
  have parsed: "parse_resource_groups sf ?fd = Inr [''trees'' \<mapsto> ?g]"
    by (simp add: parse_resource_groups_def bind_err_simps del: group_trees.simps)
  have policy: "should_purchase_axes (JDict [(''axes'', JInt 12), (''gold'', JInt 0)]) = Inr True"
    by (simp add: should_purchase_axes_def bind_err_simps)
  have group: "[''trees'' \<mapsto> ?g] ''trees'' = Some ?g" and trees: "coordinates ?g \<noteq> []"
    by simp_all
  have ok: "\<forall>made e. (\<lambda>(made :: event list) (e :: event). True) made e"
    by simp
  from run_bot_purchase_and_harvest [OF fetched parsed policy group trees ok,
      where profile_dir = "''profile''" and store_coordinate = "(Finite 5, Finite 6)"]
  show "run_bot sf ?http (\<lambda>made e. True) ''farm-1'' ''key'' ''profile'' (Finite 5, Finite 6)
       (JDict [(''axes'', JInt 12), (''gold'', JInt 0)])
     = (Inr (),
        [PlaywrightStart, LaunchPersistentContext ''profile'' False 1280 720, NewPage,
         Goto ''https://sunflower-land.com/play/'' ''domcontentloaded'',
         MouseClick (Finite 5) (Finite 6),
         MouseClick (Finite 1) (Finite 2), MouseClick (Finite 1) (Finite 2), MouseClick (Finite 1) (Finite 2),
         MouseClick (Finite 3) (Finite 4), MouseClick (Finite 3) (Finite 4), MouseClick (Finite 3) (Finite 4),
         ContextClose, PlaywrightStop])"
    by (simp add: harvest_clicks_def numeral_3_eq_3)
qed

text \<open>
  Claim C3. When the policy returns false, and when the classified \<^verbatim>\<open>"trees"\<close>
  coordinate list is empty, the run returns without a single Playwright call; and in
  both cases no Playwright call is made whatever else happens in the run and however the
  browser would behave.
\<close>

theorem run_bot_early_exit:
  "(fetch_farm_data http farm_id api_key = Inr farm_data
      \<and> parse_resource_groups sf farm_data = Inr resources
      \<and> should_purchase_axes inventory = Inr False
     \<longrightarrow> run_bot sf http br farm_id api_key profile_dir store_coordinate inventory = (Inr (), []))
   \<and> (fetch_farm_data http farm_id api_key = Inr farm_data
      \<and> parse_resource_groups sf farm_data = Inr resources
      \<and> should_purchase_axes inventory = Inr True
      \<and> (case resources ''trees'' of None \<Rightarrow> [] | Some g \<Rightarrow> coordinates g) = []
     \<longrightarrow> run_bot sf http br farm_id api_key profile_dir store_coordinate inventory = (Inr (), []))
   \<and> (should_purchase_axes inventory = Inr False
      \<or> (fetch_farm_data http farm_id api_key = Inr farm_data
          \<and> parse_resource_groups sf farm_data = Inr resources
          \<and> (case resources ''trees'' of None \<Rightarrow> [] | Some g \<Rightarrow> coordinates g) = [])
     \<longrightarrow> snd (run_bot sf http br farm_id api_key profile_dir store_coordinate inventory) = [])"
  unfolding run_bot_def
  by (auto split: sum.splits option.splits)

theorem run_bot_early_exit_witness:
  "\<forall>sf br.
     run_bot sf (\<lambda>url headers timeout. Inr (JDict [(''trees'', JList [JDict [(''x'', JInt 1), (''y'', JInt 2)]])]))
       br ''farm-1'' ''key'' ''profile'' (Finite 5, Finite 6)
       (JDict [(''axes'', JInt 2), (''gold'', JInt 10)]) = (Inr (), [])
     \<and> run_bot sf (\<lambda>url headers timeout. Inr (JDict [(''trees'', JList [])]))
       br ''farm-1'' ''key'' ''profile'' (Finite 5, Finite 6)
       (JDict [(''axes'', JInt 12), (''gold'', JInt 0)]) = (Inr (), [])
     \<and> snd (run_bot sf (\<lambda>url headers timeout. Inl HTTPError)
       br ''farm-1'' ''key'' ''profile'' (Finite 5, Finite 6)
       (JDict [(''axes'', JInt 2), (''gold'', JInt 10)])) = []"
proof (intro allI conjI)
  fix sf :: "string \<Rightarrow> pyfloat option" and br :: browser
  let ?one = "JDict [(''trees'', JList [JDict [(''x'', JInt 1), (''y'', JInt 2)]])]"
  let ?g = "\<lparr>resource_type = ''trees'', coordinates = [(Finite 1, Finite 2)]\<rparr>"
  have "map (extract_coordinate sf) [JDict [(''x'', JInt 1), (''y'', JInt 2)]]
        = map Inr [(Finite 1, Finite 2)]"
    by (simp add: extract_coordinate_flat float_of_int_small bind_err_simps)
  from group_trees_from_empty [OF this]
  have parsed: "parse_resource_groups sf ?one = Inr [''trees'' \<mapsto> ?g]"
    by (simp add: parse_resource_groups_def bind_err_simps del: group_trees.simps)
  have poor: "should_purchase_axes (JDict [(''axes'', JInt 2), (''gold'', JInt 10)]) = Inr False"
    by (simp add: should_purchase_axes_def bind_err_simps)
  have rich: "should_purchase_axes (JDict [(''axes'', JInt 12), (''gold'', JInt 0)]) = Inr True"
    by (simp add: should_purchase_axes_def bind_err_simps)
  have none: "parse_resource_groups sf (JDict [(''trees'', JList [])]) = Inr Map.empty"
    by (simp add: parse_resource_groups_def bind_err_simps)
  show "run_bot sf (\<lambda>url headers timeout. Inr ?one) br ''farm-1'' ''key'' ''profile''
          (Finite 5, Finite 6) (JDict [(''axes'', JInt 2), (''gold'', JInt 10)]) = (Inr (), [])"
    using run_bot_early_exit
      [where http = "\<lambda>url headers timeout. Inr ?one" and farm_id = "''farm-1''"
         and api_key = "''key''" and farm_data = ?one and sf = sf
         and resources = "[''trees'' \<mapsto> ?g]"
         and inventory = "JDict [(''axes'', JInt 2), (''gold'', JInt 10)]" and br = br
         and profile_dir = "''profile''" and store_coordinate = "(Finite 5, Finite 6)"]
      parsed poor
    by (simp add: fetch_farm_data_def)
  show "run_bot sf (\<lambda>url headers timeout. Inr (JDict [(''trees'', JList [])])) br ''farm-1'' ''key''
          ''profile'' (Finite 5, Finite 6) (JDict [(''axes'', JInt 12), (''gold'', JInt 0)])
        = (Inr (), [])"
    using run_bot_early_exit
      [where http = "\<lambda>url headers timeout. Inr (JDict [(''trees'', JList [])])"
         and farm_id = "''farm-1''" and api_key = "''key''"
         and farm_data = "JDict [(''trees'', JList [])]" and sf = sf
         and resources = Map.empty
         and inventory = "JDict [(''axes'', JInt 12), (''gold'', JInt 0)]" and br = br
         and profile_dir = "''profile''" and store_coordinate = "(Finite 5, Finite 6)"]
      none rich
    by (simp add: fetch_farm_data_def)
  show "snd (run_bot sf (\<lambda>url headers timeout. Inl HTTPError) br ''farm-1'' ''key'' ''profile''
          (Finite 5, Finite 6) (JDict [(''axes'', JInt 2), (''gold'', JInt 10)])) = []"
    using run_bot_early_exit
      [where http = "\<lambda>url headers timeout. Inl HTTPError" and farm_id = "''farm-1''"
         and api_key = "''key''" and sf = sf
         and inventory = "JDict [(''axes'', JInt 2), (''gold'', JInt 10)]" and br = br
         and profile_dir = "''profile''" and store_coordinate = "(Finite 5, Finite 6)"]
      poor
    by simp
qed


end
